theory Spec2Isabelle
  imports Main "HOL-Library.Word"
begin

unbundle bit_operations_syntax

section \<open>USPPCIEPHY: the logic of the pcie clock domain\<close>

text \<open>
  The source is a Migen module: its constructor elaborates a netlist, and the statements it
  adds to \<open>self.sync.pcie\<close> and \<open>self.comb\<close> describe registers and wires. Signals of
  width w are \<open>w word\<close>; a synchronous block is a step function from the inputs of a clock
  edge and the registers before it to the registers after it.
\<close>

subsection \<open>convert_size\<close>

text \<open>
  \<^verbatim>\<open>
  def convert_size(command, size, max_size):
      cases = {}
      value = 128
      for i in range(6):
          cases[i] = size.eq(value)
          value = min(value*2, max_size)
      return Case(command, cases)
  \<close>
  The loop runs at elaboration time over Python integers. \<open>convert_size_loop\<close> is the
  loop over the remaining values of \<open>i\<close>, with \<open>value\<close> and the dictionary as its state;
  the dictionary maps a key to the constant its statement assigns to \<open>size\<close>.
\<close>

fun convert_size_loop :: "int list \<Rightarrow> int \<Rightarrow> int \<Rightarrow> (int \<rightharpoonup> int) \<Rightarrow> (int \<rightharpoonup> int)" where
  "convert_size_loop [] val max_size cases = cases"
| "convert_size_loop (i # rest) val max_size cases =
     convert_size_loop rest (min (val * 2) max_size) max_size (cases(i \<mapsto> val))"

definition convert_size_cases :: "int \<Rightarrow> (int \<rightharpoonup> int)" where
  "convert_size_cases max_size = convert_size_loop [0, 1, 2, 3, 4, 5] 128 max_size Map.empty"

text \<open>
  \<open>Case(command, cases)\<close> in a synchronous block, with no default branch: the register takes
  the constant of the branch whose key equals the value of \<open>command\<close> (cut to the register's
  16 bits), and keeps its value when no key matches. The register \<open>size\<close> is \<open>sz\<close> here
  (\<open>size\<close> is a constant of HOL).
\<close>

definition convert_size :: "3 word \<Rightarrow> 16 word \<Rightarrow> int \<Rightarrow> 16 word" where
  "convert_size command sz max_size =
     (case convert_size_cases max_size (uint command) of
        Some v \<Rightarrow> word_of_int v
      | None \<Rightarrow> sz)"

subsection \<open>Cat and the synchronous block\<close>

text \<open>
  \<open>Cat(function_number, device_number, bus_number)\<close>: Migen's concatenation puts its first
  argument in the least significant bits. The operands are 3, 5 and 8 bits wide.
\<close>

definition Cat :: "3 word \<Rightarrow> 5 word \<Rightarrow> 8 word \<Rightarrow> 16 word" where
  "Cat function_number device_number bus_number =
     ucast function_number OR push_bit 3 (ucast device_number) OR push_bit 8 (ucast bus_number)"

text \<open>
  The signals the block reads, and the registers it writes (\<open>self.id\<close> is \<open>self_id\<close>:
  \<open>id\<close> is a constant of HOL). \<open>cfg_max_read_req\<close> and \<open>cfg_max_payload_size\<close> are outputs
  of the hard IP (\<open>o_cfg_max_read_req\<close>, \<open>o_cfg_max_payload\<close>). \<open>function_number\<close>,
  \<open>device_number\<close> and \<open>bus_number\<close> are signals of the module that it hands to inputs of the
  hard IP (\<open>i_cfg_ds_function_number\<close>, \<open>i_cfg_ds_device_number\<close>, \<open>i_cfg_ds_bus_number\<close>);
  the source assigns them nowhere, and the block is modelled for every value they may have.
\<close>

record pcie_inputs =
  cfg_max_read_req :: "3 word"
  cfg_max_payload_size :: "3 word"
  function_number :: "3 word"
  device_number :: "5 word"
  bus_number :: "8 word"

record pcie_regs =
  max_request_size :: "16 word"
  max_payload_size :: "16 word"
  self_id :: "16 word"

text \<open>
  \<^verbatim>\<open>
  self.sync.pcie += [
      convert_size(cfg_max_read_req,     self.max_request_size, max_size=512),
      convert_size(cfg_max_payload_size, self.max_payload_size, max_size=512),
      self.id.eq(Cat(function_number, device_number, bus_number))
  ]
  \<close>
\<close>

definition sync_pcie :: "pcie_inputs \<Rightarrow> pcie_regs \<Rightarrow> pcie_regs" where
  "sync_pcie inp regs =
     \<lparr> max_request_size = convert_size (cfg_max_read_req inp) (max_request_size regs) 512,
       max_payload_size = convert_size (cfg_max_payload_size inp) (max_payload_size regs) 512,
       self_id = Cat (function_number inp) (device_number inp) (bus_number inp) \<rparr>"

subsection \<open>The combinatorial flags of the ingress streams\<close>

text \<open>
  \<^verbatim>\<open>
  m_axis_rc_tuser = Signal(22)
  m_axis_cq_tuser = Signal(22)
  m_axis_rc_tlast = Signal()
  m_axis_cq_tlast = Signal()
  ...
  self.comb += [
      m_axis_cq.first.eq(m_axis_cq_tuser[14]),
      m_axis_cq.last.eq (m_axis_cq_tlast),
      m_axis_rc.first.eq(m_axis_rc_tuser[14]),
      m_axis_rc.last.eq (m_axis_rc_tlast),
  ]
  \<close>
  The four signals are outputs of the hard IP (\<open>o_m_axis_cq_tuser\<close>, \<open>o_m_axis_cq_tlast\<close>,
  \<open>o_m_axis_rc_tuser\<close>, \<open>o_m_axis_rc_tlast\<close>). A one-bit signal is a \<open>bool\<close>; \<open>s[14]\<close> is
  bit 14 of \<open>s\<close>. \<open>comb_flags\<close> gives the values the block drives on a transfer.
\<close>

record hard_ip_outputs =
  m_axis_cq_tuser :: "22 word"
  m_axis_cq_tlast :: bool
  m_axis_rc_tuser :: "22 word"
  m_axis_rc_tlast :: bool

record ingress_flags =
  m_axis_cq_first :: bool
  m_axis_cq_last :: bool
  m_axis_rc_first :: bool
  m_axis_rc_last :: bool

definition comb_flags :: "hard_ip_outputs \<Rightarrow> ingress_flags" where
  "comb_flags out =
     \<lparr> m_axis_cq_first = bit (m_axis_cq_tuser out) 14,
       m_axis_cq_last = m_axis_cq_tlast out,
       m_axis_rc_first = bit (m_axis_rc_tuser out) 14,
       m_axis_rc_last = m_axis_rc_tlast out \<rparr>"

subsection \<open>MultiReg and the bus mastering status\<close>

text \<open>
  \<^verbatim>\<open>
  self._bus_master_enable = CSRStatus(description="Bus Mastering Status. ``1``: Bus Mastering enabled.")
  ...
  cfg_function_status  = Signal(16)
  ...
  MultiReg(cfg_function_status, self._bus_master_enable.status),
  \<close>
  \<open>MultiReg(i, o)\<close> is Migen's synchroniser: with its default of two stages it is two
  registers as wide as \<open>i\<close>, the first loaded from \<open>i\<close> and the second from the first on every
  edge of the output clock, and \<open>o\<close> is assigned from the second. An assignment to a
  narrower signal keeps the low bits. \<open>cfg_function_status\<close> is 16 bits wide; a
  \<open>CSRStatus\<close> built with no size is one bit wide.
\<close>

definition MultiReg_sync :: "'a::len word \<Rightarrow> 'a word \<times> 'a word \<Rightarrow> 'a word \<times> 'a word" where
  "MultiReg_sync i regs = (i, fst regs)"

definition MultiReg_o :: "'a::len word \<times> 'a word \<Rightarrow> 'b::len word" where
  "MultiReg_o regs = ucast (snd regs)"

definition bus_master_enable_status :: "16 word \<times> 16 word \<Rightarrow> 1 word" where
  "bus_master_enable_status regs = MultiReg_o regs"






section \<open>USPPCIEPHY: the constructor\<close>

text \<open>
  \<open>USPPCIEPHY.__init__(self, platform, pads, speed="gen2", data_width=64, bar0_size=1*MB,
  cd="sys", pcie_data_width=None)\<close> builds the module. The model keeps what the constructor
  decides: the checks of its arguments, the submodules it adds, the stream connections it
  makes, the registers and synchronisers it adds and the endpoints it hands to the hard IP.
  Of \<open>pads\<close> this reads \<open>len(pads.tx_p)\<close>, so \<open>tx_p\<close> is that length; \<open>platform\<close> and
  \<open>bar0_size\<close> do not take part in any of it and are left out, as is the reset wiring. The
  calls into Migen, LiteX and LitePCIe are taken to return, but for the one that builds a
  signal of no width (see \<open>Endpoint\<close> below).
\<close>

record pads =
  tx_p :: nat

record args =
  pads :: pads
  speed :: string
  data_width :: int
  cd :: string
  pcie_data_width :: "int option"

text \<open>The constructor called with \<open>pads\<close> alone, every other argument at its default.\<close>

definition default_args :: "pads \<Rightarrow> args" where
  "default_args p =
     \<lparr> pads = p, speed = ''gen2'', data_width = 64, cd = ''sys'', pcie_data_width = None \<rparr>"

text \<open>
  An \<open>assert\<close> statement with no message raises \<open>AssertionError()\<close>: the exception carries
  no argument. The argument of \<open>AssertionError\<close> is the message, \<open>None\<close> when there is none.
  Migen raises \<open>TypeError\<close> with a message when it is asked for a signal whose width is
  not strictly positive.
\<close>

datatype error = AssertionError "string option" | TypeError string

text \<open>
  \<^verbatim>\<open>
  self.req_sink   = stream.Endpoint(phy_layout(data_width))
  self.cmp_sink   = stream.Endpoint(phy_layout(data_width))
  self.req_source = stream.Endpoint(phy_layout(data_width))
  self.cmp_source = stream.Endpoint(phy_layout(data_width))
  self.msi        = stream.Endpoint(msi_layout())
  \<close>
  These are the first statements of the constructor, before any check of its arguments.
  LitePCIe's \<open>phy_layout(data_width)\<close> is the payload \<open>[("dat", data_width), ("be",
  data_width//8)]\<close>, and \<open>stream.Endpoint\<close> builds one signal for each field, in this
  order. Python's \<open>//\<close> rounds down, as \<open>div\<close> does. Building a signal of width 0 or less
  raises \<open>TypeError("Width must be a strictly positive integer")\<close>. The four calls have the
  same argument, so the first decides; the layout of \<open>self.msi\<close> is fixed.
\<close>

definition phy_layout :: "int \<Rightarrow> (string \<times> int) list" where
  "phy_layout data_width' = [(''dat'', data_width'), (''be'', data_width' div 8)]"

fun Endpoint :: "(string \<times> int) list \<Rightarrow> error + unit" where
  "Endpoint [] = Inr ()"
| "Endpoint ((name, nbits) # rest) =
     (if nbits \<le> 0 then Inl (TypeError ''Width must be a strictly positive integer'')
      else Endpoint rest)"

text \<open>
  A \<open>CSRStatus(size)\<close> is LiteX's read-only register: the bus reads its \<open>status\<close> signal
  and cannot write it; with no size given it is one bit wide. The module's signals are
  named with their widths. Its specials are the clock buffer instance and the five
  \<open>MultiReg(i, o)\<close>, whose clock domain and number of stages are Migen's defaults,
  \<open>odomain="sys"\<close> and \<open>n=2\<close>.
\<close>

datatype csr = CSRStatus string nat

datatype signal = Signal string nat

datatype special = Instance string | MultiReg signal signal string nat

text \<open>
  The submodules, by their classes and constructor arguments:
  \<open>PHYTXDatapath(core_data_width, pcie_data_width, clock_domain)\<close>, the same for
  \<open>PHYRXDatapath\<close>, \<open>stream.AsyncFIFO(layout, depth)\<close>, and
  \<open>ClockDomainsRenamer(mapping)(module)\<close>.
\<close>

datatype submodule =
    PHYTXDatapath int int string
  | PHYRXDatapath int int string
  | AsyncFIFO string nat
  | ClockDomainsRenamer "(string \<times> string) list" submodule

text \<open>
  A stream endpoint is an attribute of the module itself (\<open>self.req_sink\<close>) or of one of
  its submodules (\<open>self.cc_datapath.sink\<close>). \<open>a.connect(b)\<close> makes \<open>a\<close> drive \<open>b\<close>.
\<close>

datatype endpoint = Self string | Of string string

datatype stmt = Connect endpoint endpoint

record phy =
  self_data_width :: int
  self_pcie_data_width :: int
  self_speed :: string
  self_nlanes :: nat
  self_external_hard_ip :: bool
  self_csrs :: "csr list"
  self_specials :: "special list"
  self_submodules :: "(string \<times> submodule) list"
  self_comb :: "stmt list"
  self_m_axis_cq :: endpoint
  self_s_axis_cc :: endpoint
  self_s_axis_rq :: endpoint
  self_m_axis_rc :: endpoint
  cfg_msi :: endpoint

text \<open>
  \<^verbatim>\<open>
  if cd == "pcie":
      cfg_msi = self.msi
  else:
      msi_cdc = stream.AsyncFIFO(msi_layout(), 4)
      msi_cdc = ClockDomainsRenamer({"write": cd, "read": "pcie"})(msi_cdc)
      self.submodules += msi_cdc
      self.comb += self.msi.connect(msi_cdc.sink)
      cfg_msi = msi_cdc.source
  \<close>
  The result is what the branch adds to the submodules and to the combinatorial statements,
  and the endpoint \<open>cfg_msi\<close> that the hard IP's \<open>cfg_interrupt_msi_int_valid\<close>,
  \<open>cfg_interrupt_msi_int\<close> and \<open>cfg_interrupt_msi_sent\<close> are wired to. The submodule is
  added without a name; the model calls it by its local variable.
\<close>

definition msi_cdc :: "string \<Rightarrow> (string \<times> submodule) list \<times> stmt list \<times> endpoint" where
  "msi_cdc cd' =
     (if cd' = ''pcie'' then ([], [], Self ''msi'')
      else ([(''msi_cdc'',
               ClockDomainsRenamer [(''write'', cd'), (''read'', ''pcie'')]
                 (AsyncFIFO ''msi_layout'' 4))],
            [Connect (Self ''msi'') (Of ''msi_cdc'' ''sink'')],
            Of ''msi_cdc'' ''source''))"

text \<open>
  \<^verbatim>\<open>
  ... the five endpoints and the five CSRStatus registers above ...
  if pcie_data_width is None: pcie_data_width = data_width
  ...
  self.speed  = speed
  self.nlanes = nlanes = len(pads.tx_p)

  assert speed           in ["gen2", "gen3", "gen4"]
  assert nlanes          in [1, 2, 4, 8, 16]
  assert data_width      in [64, 128, 256, 512]
  assert pcie_data_width in [64, 128, 256, 512]
  ...
  self.submodules.cc_datapath = PHYTXDatapath(
      core_data_width = data_width,
      pcie_data_width = pcie_data_width,
      clock_domain    = cd)
  self.comb += self.cmp_sink.connect(self.cc_datapath.sink)
  s_axis_cc = self.cc_datapath.source

  self.submodules.rq_datapath = PHYTXDatapath(... the same arguments ...)
  self.comb += self.req_sink.connect(self.rq_datapath.sink)
  s_axis_rq = self.rq_datapath.source

  self.submodules.cq_datapath = PHYRXDatapath(... the same arguments ...)
  m_axis_cq = self.cq_datapath.sink
  self.comb += self.cq_datapath.source.connect(self.req_source)

  self.submodules.rc_datapath = PHYRXDatapath(... the same arguments ...)
  m_axis_rc = self.rc_datapath.sink
  self.comb += self.rc_datapath.source.connect(self.cmp_source)
  \<close>
  followed by the MSI branch above, and
  \<^verbatim>\<open>
  self.specials += [
      MultiReg(link_up, self._link_up.status),
      MultiReg(cfg_function_status, self._bus_master_enable.status),
      MultiReg(msi_enable, self._msi_enable.status),
      MultiReg(self.max_request_size, self._max_request_size.status),
      MultiReg(self.max_payload_size, self._max_payload_size.status)
  ]

  self.m_axis_cq = m_axis_cq
  self.s_axis_cc = s_axis_cc
  self.s_axis_rq = s_axis_rq
  self.m_axis_rc = m_axis_rc
  \<close>
  An endpoint that cannot be built, or else the first failing \<open>assert\<close>, ends the
  constructor with its exception.
\<close>

definition USPPCIEPHY_init :: "args \<Rightarrow> error + phy" where
  "USPPCIEPHY_init a =
     (case Endpoint (phy_layout (data_width a)) of
        Inl e \<Rightarrow> Inl e
      | Inr u \<Rightarrow>
     (let pcie_data_width' = (case pcie_data_width a of None \<Rightarrow> data_width a | Some w \<Rightarrow> w);
          nlanes = tx_p (pads a)
      in
        if speed a \<notin> set [''gen2'', ''gen3'', ''gen4''] then Inl (AssertionError None)
        else if nlanes \<notin> set [1, 2, 4, 8, 16] then Inl (AssertionError None)
        else if data_width a \<notin> set [64, 128, 256, 512] then Inl (AssertionError None)
        else if pcie_data_width' \<notin> set [64, 128, 256, 512] then Inl (AssertionError None)
        else
          (let (msi_submodules, msi_comb, msi_endpoint) = msi_cdc (cd a)
           in Inr
             \<lparr> self_data_width = data_width a,
               self_pcie_data_width = pcie_data_width',
               self_speed = speed a,
               self_nlanes = nlanes,
               self_external_hard_ip = False,
               self_csrs =
                 [CSRStatus ''_link_up'' 1,
                  CSRStatus ''_msi_enable'' 1,
                  CSRStatus ''_bus_master_enable'' 1,
                  CSRStatus ''_max_request_size'' 16,
                  CSRStatus ''_max_payload_size'' 16],
               self_specials =
                 [Instance ''IBUFDS_GTE4'',
                  MultiReg (Signal ''link_up'' 1) (Signal ''_link_up.status'' 1) ''sys'' 2,
                  MultiReg (Signal ''cfg_function_status'' 16)
                    (Signal ''_bus_master_enable.status'' 1) ''sys'' 2,
                  MultiReg (Signal ''msi_enable'' 1) (Signal ''_msi_enable.status'' 1) ''sys'' 2,
                  MultiReg (Signal ''max_request_size'' 16)
                    (Signal ''_max_request_size.status'' 16) ''sys'' 2,
                  MultiReg (Signal ''max_payload_size'' 16)
                    (Signal ''_max_payload_size.status'' 16) ''sys'' 2],
               self_submodules =
                 [(''cc_datapath'', PHYTXDatapath (data_width a) pcie_data_width' (cd a)),
                  (''rq_datapath'', PHYTXDatapath (data_width a) pcie_data_width' (cd a)),
                  (''cq_datapath'', PHYRXDatapath (data_width a) pcie_data_width' (cd a)),
                  (''rc_datapath'', PHYRXDatapath (data_width a) pcie_data_width' (cd a))]
                 @ msi_submodules,
               self_comb =
                 [Connect (Self ''cmp_sink'') (Of ''cc_datapath'' ''sink''),
                  Connect (Self ''req_sink'') (Of ''rq_datapath'' ''sink''),
                  Connect (Of ''cq_datapath'' ''source'') (Self ''req_source''),
                  Connect (Of ''rc_datapath'' ''source'') (Self ''cmp_source'')]
                 @ msi_comb,
               self_m_axis_cq = Of ''cq_datapath'' ''sink'',
               self_s_axis_cc = Of ''cc_datapath'' ''source'',
               self_s_axis_rq = Of ''rq_datapath'' ''source'',
               self_m_axis_rc = Of ''rc_datapath'' ''sink'',
               cfg_msi = msi_endpoint \<rparr>)))"

text \<open>Reading the submodules: the two datapath classes, and a queue under its renamer.\<close>

fun is_tx_datapath :: "submodule \<Rightarrow> bool" where
  "is_tx_datapath (PHYTXDatapath c p d) = True"
| "is_tx_datapath m = False"

fun is_rx_datapath :: "submodule \<Rightarrow> bool" where
  "is_rx_datapath (PHYRXDatapath c p d) = True"
| "is_rx_datapath m = False"

fun is_AsyncFIFO :: "submodule \<Rightarrow> bool" where
  "is_AsyncFIFO (AsyncFIFO l n) = True"
| "is_AsyncFIFO (ClockDomainsRenamer m s) = is_AsyncFIFO s"
| "is_AsyncFIFO m = False"




text \<open>
  The size table as the specification words it, for comparison with the loop:
  \<open>size(0) = 128\<close>, \<open>size(i) = min(size(i-1) * 2, ceiling)\<close>.
\<close>

fun size_of :: "nat \<Rightarrow> int \<Rightarrow> int" where
  "size_of 0 ceiling = 128"
| "size_of (Suc i) ceiling = min (size_of i ceiling * 2) ceiling"

section \<open>Auxiliary facts\<close>

subsection \<open>The size table\<close>

lemma convert_size_cases_512:
  "convert_size_cases 512 = [0 \<mapsto> 128, 1 \<mapsto> 256, 2 \<mapsto> 512, 3 \<mapsto> 512, 4 \<mapsto> 512, 5 \<mapsto> 512]"
  by (simp add: convert_size_cases_def)

lemma size_of_512:
  "size_of 0 512 = 128" "size_of 1 512 = 256" "size_of 2 512 = 512"
  "size_of 3 512 = 512" "size_of 4 512 = 512" "size_of 5 512 = 512"
  by (simp_all add: eval_nat_numeral)

text \<open>The loop computes the specification's recurrence, whatever the ceiling.\<close>

lemma convert_size_cases_size_of:
  assumes "c \<le> 5"
  shows "convert_size_cases ceiling (int c) = Some (size_of c ceiling)"
proof -
  from assms consider "c = 0" | "c = 1" | "c = 2" | "c = 3" | "c = 4" | "c = 5"
    by arith
  then show ?thesis
    by cases (simp_all add: convert_size_cases_def eval_nat_numeral)
qed

text \<open>The dictionary has no other key: on the codes 6 and 7 the register keeps its value.\<close>

lemma convert_size_cases_None:
  "k \<notin> {0..5} \<Longrightarrow> convert_size_cases ceiling k = None"
  by (auto simp: convert_size_cases_def)

lemma size_of_512_table:
  assumes "c \<le> 5"
  shows "size_of c 512 = [128, 256, 512, 512, 512, 512] ! c"
proof -
  from assms consider "c = 0" | "c = 1" | "c = 2" | "c = 3" | "c = 4" | "c = 5"
    by arith
  then show ?thesis
    by cases (simp_all add: size_of_512)
qed

lemma convert_size_512:
  assumes "unat c \<le> 5"
  shows "uint (convert_size c sz 512) = size_of (unat c) 512"
proof -
  have u: "uint c = int (unat c)" by simp
  from assms consider "unat c = 0" | "unat c = 1" | "unat c = 2"
    | "unat c = 3" | "unat c = 4" | "unat c = 5"
    by arith
  then show ?thesis
    by cases (simp_all add: convert_size_def convert_size_cases_512 u size_of_512 del: of_nat_unat)
qed

subsection \<open>The bits of Cat\<close>

lemma bit_Cat:
  "bit (Cat f d b) n =
     (if n < 3 then bit f n else if n < 8 then bit d (n - 3) else bit b (n - 8))"
  unfolding Cat_def
  by (auto simp: bit_simps dest: bit_imp_le_length)

lemma Cat_function_number: "ucast (Cat f d b) = f"
  by (rule bit_word_eqI) (simp add: bit_simps bit_Cat)

lemma Cat_device_number: "ucast (drop_bit 3 (Cat f d b)) = d"
  by (rule bit_word_eqI) (simp add: bit_simps bit_Cat)

lemma Cat_bus_number: "ucast (drop_bit 8 (Cat f d b)) = b"
  by (rule bit_word_eqI) (simp add: bit_simps bit_Cat)

subsection \<open>The constructor, unfolded\<close>

lemma Endpoint_phy_layout:
  "Endpoint (phy_layout w) =
     (if w \<le> 7 then Inl (TypeError ''Width must be a strictly positive integer'') else Inr ())"
proof -
  have "w div 8 \<le> 0 \<longleftrightarrow> w \<le> 7" by arith
  then show ?thesis by (auto simp: phy_layout_def)
qed

lemma init_unfold:
  "USPPCIEPHY_init a =
     (if data_width a \<le> 7 then Inl (TypeError ''Width must be a strictly positive integer'')
      else if speed a \<in> {''gen2'', ''gen3'', ''gen4''} \<and> tx_p (pads a) \<in> {1, 2, 4, 8, 16}
         \<and> data_width a \<in> {64, 128, 256, 512}
         \<and> (case pcie_data_width a of None \<Rightarrow> data_width a | Some w \<Rightarrow> w) \<in> {64, 128, 256, 512}
      then Inr
          \<lparr> self_data_width = data_width a,
            self_pcie_data_width = (case pcie_data_width a of None \<Rightarrow> data_width a | Some w \<Rightarrow> w),
            self_speed = speed a,
            self_nlanes = tx_p (pads a),
            self_external_hard_ip = False,
            self_csrs =
              [CSRStatus ''_link_up'' 1,
               CSRStatus ''_msi_enable'' 1,
               CSRStatus ''_bus_master_enable'' 1,
               CSRStatus ''_max_request_size'' 16,
               CSRStatus ''_max_payload_size'' 16],
            self_specials =
              [Instance ''IBUFDS_GTE4'',
               MultiReg (Signal ''link_up'' 1) (Signal ''_link_up.status'' 1) ''sys'' 2,
               MultiReg (Signal ''cfg_function_status'' 16)
                 (Signal ''_bus_master_enable.status'' 1) ''sys'' 2,
               MultiReg (Signal ''msi_enable'' 1) (Signal ''_msi_enable.status'' 1) ''sys'' 2,
               MultiReg (Signal ''max_request_size'' 16)
                 (Signal ''_max_request_size.status'' 16) ''sys'' 2,
               MultiReg (Signal ''max_payload_size'' 16)
                 (Signal ''_max_payload_size.status'' 16) ''sys'' 2],
            self_submodules =
              [(''cc_datapath'', PHYTXDatapath (data_width a)
                  (case pcie_data_width a of None \<Rightarrow> data_width a | Some w \<Rightarrow> w) (cd a)),
               (''rq_datapath'', PHYTXDatapath (data_width a)
                  (case pcie_data_width a of None \<Rightarrow> data_width a | Some w \<Rightarrow> w) (cd a)),
               (''cq_datapath'', PHYRXDatapath (data_width a)
                  (case pcie_data_width a of None \<Rightarrow> data_width a | Some w \<Rightarrow> w) (cd a)),
               (''rc_datapath'', PHYRXDatapath (data_width a)
                  (case pcie_data_width a of None \<Rightarrow> data_width a | Some w \<Rightarrow> w) (cd a))]
              @ fst (msi_cdc (cd a)),
            self_comb =
              [Connect (Self ''cmp_sink'') (Of ''cc_datapath'' ''sink''),
               Connect (Self ''req_sink'') (Of ''rq_datapath'' ''sink''),
               Connect (Of ''cq_datapath'' ''source'') (Self ''req_source''),
               Connect (Of ''rc_datapath'' ''source'') (Self ''cmp_source'')]
              @ fst (snd (msi_cdc (cd a))),
            self_m_axis_cq = Of ''cq_datapath'' ''sink'',
            self_s_axis_cc = Of ''cc_datapath'' ''source'',
            self_s_axis_rq = Of ''rq_datapath'' ''source'',
            self_m_axis_rc = Of ''rc_datapath'' ''sink'',
            cfg_msi = snd (snd (msi_cdc (cd a))) \<rparr>
      else Inl (AssertionError None))"
  by (simp add: USPPCIEPHY_init_def Endpoint_phy_layout Let_def case_prod_beta)

lemma init_Inr_iff:
  "(\<exists>p. USPPCIEPHY_init a = Inr p) \<longleftrightarrow>
     speed a \<in> {''gen2'', ''gen3'', ''gen4''} \<and> tx_p (pads a) \<in> {1, 2, 4, 8, 16}
     \<and> data_width a \<in> {64, 128, 256, 512}
     \<and> (case pcie_data_width a of None \<Rightarrow> data_width a | Some w \<Rightarrow> w) \<in> {64, 128, 256, 512}"
  by (auto simp: init_unfold)



lemma init_Inr_cfg_msi:
  "USPPCIEPHY_init a = Inr p \<Longrightarrow> cfg_msi p = snd (snd (msi_cdc (cd a)))"
  by (clarsimp simp: init_unfold split: if_splits)

lemma init_Inr_submodules:
  "USPPCIEPHY_init a = Inr p \<Longrightarrow>
     self_submodules p =
       [(''cc_datapath'', PHYTXDatapath (data_width a)
           (case pcie_data_width a of None \<Rightarrow> data_width a | Some w \<Rightarrow> w) (cd a)),
        (''rq_datapath'', PHYTXDatapath (data_width a)
           (case pcie_data_width a of None \<Rightarrow> data_width a | Some w \<Rightarrow> w) (cd a)),
        (''cq_datapath'', PHYRXDatapath (data_width a)
           (case pcie_data_width a of None \<Rightarrow> data_width a | Some w \<Rightarrow> w) (cd a)),
        (''rc_datapath'', PHYRXDatapath (data_width a)
           (case pcie_data_width a of None \<Rightarrow> data_width a | Some w \<Rightarrow> w) (cd a))]
       @ fst (msi_cdc (cd a))"
  by (clarsimp simp: init_unfold split: if_splits)

lemma init_Inr_comb:
  "USPPCIEPHY_init a = Inr p \<Longrightarrow>
     self_comb p =
       [Connect (Self ''cmp_sink'') (Of ''cc_datapath'' ''sink''),
        Connect (Self ''req_sink'') (Of ''rq_datapath'' ''sink''),
        Connect (Of ''cq_datapath'' ''source'') (Self ''req_source''),
        Connect (Of ''rc_datapath'' ''source'') (Self ''cmp_source'')]
       @ fst (snd (msi_cdc (cd a)))"
  by (clarsimp simp: init_unfold split: if_splits)

lemma init_Inr_widths:
  "USPPCIEPHY_init a = Inr p \<Longrightarrow>
     self_data_width p = data_width a \<and>
     self_pcie_data_width p = (case pcie_data_width a of None \<Rightarrow> data_width a | Some w \<Rightarrow> w)"
  by (clarsimp simp: init_unfold split: if_splits)

lemma init_Inr_axis:
  "USPPCIEPHY_init a = Inr p \<Longrightarrow>
     self_m_axis_cq p = Of ''cq_datapath'' ''sink'' \<and>
     self_s_axis_cc p = Of ''cc_datapath'' ''source'' \<and>
     self_s_axis_rq p = Of ''rq_datapath'' ''source'' \<and>
     self_m_axis_rc p = Of ''rc_datapath'' ''sink''"
  by (clarsimp simp: init_unfold split: if_splits)

text \<open>The constructor accepts its defaults on a four-lane connector, in either clock domain.\<close>

lemma init_default_x4:
  "\<exists>p. USPPCIEPHY_init (default_args \<lparr>tx_p = 4\<rparr>) = Inr p"
  by (simp add: init_Inr_iff default_args_def)

lemma init_default_x4_pcie:
  "\<exists>p. USPPCIEPHY_init ((default_args \<lparr>tx_p = 4\<rparr>)\<lparr>cd := ''pcie''\<rparr>) = Inr p"
  by (simp add: init_Inr_iff default_args_def)

subsection \<open>One-bit words\<close>

lemma one_bit_word: "(x :: 1 word) = 1 \<longleftrightarrow> bit x 0"
proof
  assume "x = 1"
  then show "bit x 0" by simp
next
  assume b: "bit x 0"
  show "x = 1"
  proof (rule bit_word_eqI)
    fix n
    assume "n < LENGTH(1)"
    then have "n = 0" by simp
    then show "bit x n = bit (1 :: 1 word) n" using b by simp
  qed
qed

text \<open>
  Once the input has been stable for two edges, the status bit is bit 0 of
  \<open>cfg_function_status\<close>.
\<close>

lemma bus_master_enable_status_bit_0:
  "bus_master_enable_status (MultiReg_sync w (MultiReg_sync w regs)) = 1 \<longleftrightarrow> bit w 0"
  by (simp add: bus_master_enable_status_def MultiReg_o_def MultiReg_sync_def one_bit_word bit_simps)

subsection \<open>The relay over a run of edges\<close>






section \<open>The claims\<close>

text \<open>
  C1. For every size code 0..5 read from the hard IP, the register loaded on a pcie clock
  edge holds the entry of the table 128, 256, 512, 512, 512, 512 at that code, which is the
  value of the recurrence \<open>size(0) = 128\<close>, \<open>size(i) = min(size(i-1) * 2, 512)\<close>. The
  maximum request size is taken from \<open>cfg_max_read_req\<close> and the maximum payload size from
  \<open>cfg_max_payload_size\<close>, by the same table with the same ceiling 512.
\<close>

theorem negotiated_sizes_table:
  "(unat (cfg_max_read_req inp) \<le> 5 \<longrightarrow>
      uint (max_request_size (sync_pcie inp regs))
        = [128, 256, 512, 512, 512, 512] ! unat (cfg_max_read_req inp)
      \<and> uint (max_request_size (sync_pcie inp regs)) = size_of (unat (cfg_max_read_req inp)) 512)
   \<and> (unat (cfg_max_payload_size inp) \<le> 5 \<longrightarrow>
      uint (max_payload_size (sync_pcie inp regs))
        = [128, 256, 512, 512, 512, 512] ! unat (cfg_max_payload_size inp)
      \<and> uint (max_payload_size (sync_pcie inp regs))
        = size_of (unat (cfg_max_payload_size inp)) 512)"
  by (simp add: sync_pcie_def convert_size_512 size_of_512_table)

theorem negotiated_sizes_table_witness:
  "uint (max_request_size (sync_pcie
      \<lparr> cfg_max_read_req = 1, cfg_max_payload_size = 5,
        function_number = 0, device_number = 0, bus_number = 0 \<rparr>
      \<lparr> max_request_size = 0, max_payload_size = 0, self_id = 0 \<rparr>)) = 256
   \<and> uint (max_payload_size (sync_pcie
      \<lparr> cfg_max_read_req = 1, cfg_max_payload_size = 5,
        function_number = 0, device_number = 0, bus_number = 0 \<rparr>
      \<lparr> max_request_size = 0, max_payload_size = 0, self_id = 0 \<rparr>)) = 512"
  using negotiated_sizes_table
    [of "\<lparr> cfg_max_read_req = 1, cfg_max_payload_size = 5,
           function_number = 0, device_number = 0, bus_number = 0 \<rparr>"
        "\<lparr> max_request_size = 0, max_payload_size = 0, self_id = 0 \<rparr>"]
  by simp

text \<open>
  C3. When the application clock domain is not \<open>pcie\<close>, the constructor adds one
  asynchronous queue for the MSI stream, of depth 4 (a power of two), written in the
  application domain and read in the \<open>pcie\<close> domain; \<open>self.msi\<close> drives its sink and the
  hard IP takes the stream from its source. When the application domain is \<open>pcie\<close>, no
  queue is added, \<open>self.msi\<close> is connected to nothing and goes to the hard IP as it is.
\<close>

theorem msi_crossing:
  assumes "USPPCIEPHY_init a = Inr p"
  shows "(cd a \<noteq> ''pcie'' \<longrightarrow>
            filter (is_AsyncFIFO \<circ> snd) (self_submodules p) =
              [(''msi_cdc'', ClockDomainsRenamer [(''write'', cd a), (''read'', ''pcie'')]
                               (AsyncFIFO ''msi_layout'' 4))]
            \<and> (4::nat) = 2 ^ 2
            \<and> Connect (Self ''msi'') (Of ''msi_cdc'' ''sink'') \<in> set (self_comb p)
            \<and> cfg_msi p = Of ''msi_cdc'' ''source'')
       \<and> (cd a = ''pcie'' \<longrightarrow>
            filter (is_AsyncFIFO \<circ> snd) (self_submodules p) = []
            \<and> (\<forall>e. Connect (Self ''msi'') e \<notin> set (self_comb p))
            \<and> cfg_msi p = Self ''msi'')"
  by (simp add: init_Inr_submodules [OF assms] init_Inr_comb [OF assms]
      init_Inr_cfg_msi [OF assms] msi_cdc_def)

theorem msi_crossing_witness:
  "(\<exists>p. USPPCIEPHY_init (default_args \<lparr>tx_p = 4\<rparr>) = Inr p
        \<and> filter (is_AsyncFIFO \<circ> snd) (self_submodules p) =
            [(''msi_cdc'', ClockDomainsRenamer [(''write'', ''sys''), (''read'', ''pcie'')]
                             (AsyncFIFO ''msi_layout'' 4))]
        \<and> cfg_msi p = Of ''msi_cdc'' ''source'')
   \<and> (\<exists>p. USPPCIEPHY_init ((default_args \<lparr>tx_p = 4\<rparr>)\<lparr>cd := ''pcie''\<rparr>) = Inr p
        \<and> filter (is_AsyncFIFO \<circ> snd) (self_submodules p) = []
        \<and> cfg_msi p = Self ''msi'')"
proof -
  obtain p where p: "USPPCIEPHY_init (default_args \<lparr>tx_p = 4\<rparr>) = Inr p"
    using init_default_x4 by blast
  obtain q where
    q: "USPPCIEPHY_init ((default_args \<lparr>tx_p = 4\<rparr>)\<lparr>cd := ''pcie''\<rparr>) = Inr q"
    using init_default_x4_pcie by blast
  from msi_crossing [OF p]
  have "filter (is_AsyncFIFO \<circ> snd) (self_submodules p) =
            [(''msi_cdc'', ClockDomainsRenamer [(''write'', ''sys''), (''read'', ''pcie'')]
                             (AsyncFIFO ''msi_layout'' 4))]
        \<and> cfg_msi p = Of ''msi_cdc'' ''source''"
    by (simp add: default_args_def)
  moreover from msi_crossing [OF q]
  have "filter (is_AsyncFIFO \<circ> snd) (self_submodules q) = [] \<and> cfg_msi q = Self ''msi''"
    by (simp add: default_args_def)
  ultimately show ?thesis
    using p q by blast
qed

text \<open>
  C4, as the code has it. The constructor fails exactly when the speed is not one of gen2,
  gen3, gen4, or the number of lanes is not one of 1, 2, 4, 8, 16, or the application data
  width is not one of 64, 128, 256, 512, or the pcie data width (the application data width
  when none is given) is not one of 64, 128, 256, 512. It fails while the module is built,
  so no module exists. When the application data width is 7 or less the failure is Migen's
  \<open>TypeError\<close> for a signal of no width, raised while the stream endpoints are built, before
  any argument is checked; in every other case it is an \<open>AssertionError\<close> that carries no
  message.
\<close>

theorem init_fails_iff:
  "((\<exists>e. USPPCIEPHY_init a = Inl e) \<longleftrightarrow>
      speed a \<notin> {''gen2'', ''gen3'', ''gen4''} \<or> tx_p (pads a) \<notin> {1, 2, 4, 8, 16}
      \<or> data_width a \<notin> {64, 128, 256, 512}
      \<or> (case pcie_data_width a of None \<Rightarrow> data_width a | Some w \<Rightarrow> w) \<notin> {64, 128, 256, 512})
   \<and> (\<forall>e. USPPCIEPHY_init a = Inl e \<longrightarrow>
         e = (if data_width a \<le> 7
              then TypeError ''Width must be a strictly positive integer''
              else AssertionError None))"
  by (auto simp: init_unfold)

theorem init_fails_iff_witness:
  "USPPCIEPHY_init ((default_args \<lparr>tx_p = 3\<rparr>)\<lparr>pcie_data_width := Some 128\<rparr>)
     = Inl (AssertionError None)
   \<and> USPPCIEPHY_init ((default_args \<lparr>tx_p = 4\<rparr>)\<lparr>data_width := 7\<rparr>)
     = Inl (TypeError ''Width must be a strictly positive integer'')"
proof -
  let ?a = "(default_args \<lparr>tx_p = 3\<rparr>)\<lparr>pcie_data_width := Some 128\<rparr>"
  let ?b = "(default_args \<lparr>tx_p = 4\<rparr>)\<lparr>data_width := 7\<rparr>"
  have "tx_p (pads ?a) \<notin> {1, 2, 4, 8, 16}"
    by (simp add: default_args_def)
  with init_fails_iff [of ?a] obtain e where e: "USPPCIEPHY_init ?a = Inl e"
    by blast
  with init_fails_iff [of ?a] have "e = AssertionError None"
    by (simp add: default_args_def)
  with e have a: "USPPCIEPHY_init ?a = Inl (AssertionError None)"
    by simp
  have "data_width ?b \<notin> {64, 128, 256, 512}"
    by (simp add: default_args_def)
  with init_fails_iff [of ?b] obtain e' where e': "USPPCIEPHY_init ?b = Inl e'"
    by blast
  with init_fails_iff [of ?b]
  have "e' = TypeError ''Width must be a strictly positive integer''"
    by (simp add: default_args_def)
  with e' a show ?thesis
    by simp
qed

text \<open>
  C4, as the claim states it, asks for a precise description of the offending parameter.
  A wrong speed and a wrong data width are rejected with the same error, which has no
  message at all.
\<close>

theorem init_error_without_description:
  "USPPCIEPHY_init ((default_args \<lparr>tx_p = 4\<rparr>)\<lparr>speed := ''gen1''\<rparr>)
     = Inl (AssertionError None)
   \<and> USPPCIEPHY_init ((default_args \<lparr>tx_p = 4\<rparr>)\<lparr>data_width := 32\<rparr>)
     = Inl (AssertionError None)"
  by (simp add: init_unfold default_args_def)

text \<open>
  C5. The identity tag loaded on a pcie clock edge is the concatenation of the function
  number in bits 0..2, the device number in bits 3..7 and the bus number in bits 8..15,
  whatever the registers held before. When one of the three numbers changes and the other
  two do not, the bits of the other two in the tag are the same.
\<close>

theorem identity_tag_recomposition:
  "self_id (sync_pcie inp regs) = Cat (function_number inp) (device_number inp) (bus_number inp)
   \<and> ucast (self_id (sync_pcie inp regs)) = function_number inp
   \<and> ucast (drop_bit 3 (self_id (sync_pcie inp regs))) = device_number inp
   \<and> ucast (drop_bit 8 (self_id (sync_pcie inp regs))) = bus_number inp
   \<and> (\<forall>n f. 3 \<le> n \<longrightarrow>
        bit (self_id (sync_pcie (inp\<lparr>function_number := f\<rparr>) regs')) n
          = bit (self_id (sync_pcie inp regs)) n)
   \<and> (\<forall>n d. n < 3 \<or> 8 \<le> n \<longrightarrow>
        bit (self_id (sync_pcie (inp\<lparr>device_number := d\<rparr>) regs')) n
          = bit (self_id (sync_pcie inp regs)) n)
   \<and> (\<forall>n b. n < 8 \<longrightarrow>
        bit (self_id (sync_pcie (inp\<lparr>bus_number := b\<rparr>) regs')) n
          = bit (self_id (sync_pcie inp regs)) n)"
  by (simp add: sync_pcie_def Cat_function_number Cat_device_number Cat_bus_number bit_Cat)

theorem identity_tag_recomposition_witness:
  "self_id (sync_pcie
      \<lparr> cfg_max_read_req = 0, cfg_max_payload_size = 0,
        function_number = 5, device_number = 3, bus_number = 255 \<rparr>
      \<lparr> max_request_size = 0, max_payload_size = 0, self_id = 0 \<rparr>) = 0xFF1D
   \<and> bit (self_id (sync_pcie
      \<lparr> cfg_max_read_req = 0, cfg_max_payload_size = 0,
        function_number = 2, device_number = 3, bus_number = 255 \<rparr>
      \<lparr> max_request_size = 0, max_payload_size = 0, self_id = 0 \<rparr>)) 4
     = bit (self_id (sync_pcie
      \<lparr> cfg_max_read_req = 0, cfg_max_payload_size = 0,
        function_number = 5, device_number = 3, bus_number = 255 \<rparr>
      \<lparr> max_request_size = 0, max_payload_size = 0, self_id = 0 \<rparr>)) 4"
  using identity_tag_recomposition
    [of "\<lparr> cfg_max_read_req = 0, cfg_max_payload_size = 0,
           function_number = 5, device_number = 3, bus_number = 255 \<rparr>"
        "\<lparr> max_request_size = 0, max_payload_size = 0, self_id = 0 \<rparr>"
        "\<lparr> max_request_size = 0, max_payload_size = 0, self_id = 0 \<rparr>"]
  by (simp add: Cat_def)



text \<open>
  C7, at a status word that has bus mastering enabled and nothing else.
  \<open>cfg_function_status\<close> reports the command register of each function, four bits a
  function: I/O space enable, memory space enable, bus master enable, INTx disable. Bit 2
  is the bus master enable of function 0. With the status word at 4 for two clock edges
  the status bit reads 0: it is bit 0 of the word, the I/O space enable.
\<close>

theorem bus_master_enable_status_at_4:
  "bit (4 :: 16 word) 2
   \<and> bus_master_enable_status (MultiReg_sync 4 (MultiReg_sync 4 regs)) = 0"
  by (simp add: bus_master_enable_status_def MultiReg_o_def MultiReg_sync_def)

text \<open>
  C8. The constructor adds exactly four datapaths. Two are \<open>PHYTXDatapath\<close>, built from
  the application data width to the pcie data width: \<open>rq_datapath\<close>, whose sink is driven
  by \<open>req_sink\<close>, and \<open>cc_datapath\<close>, whose sink is driven by \<open>cmp_sink\<close>; their
  sources go to the hard IP. Two are \<open>PHYRXDatapath\<close>, built with the same two widths:
  \<open>cq_datapath\<close>, whose source drives \<open>req_source\<close>, and \<open>rc_datapath\<close>, whose source
  drives \<open>cmp_source\<close>; their sinks come from the hard IP.
\<close>

theorem four_datapaths:
  assumes "USPPCIEPHY_init a = Inr p"
  shows "filter (\<lambda>m. is_tx_datapath (snd m) \<or> is_rx_datapath (snd m)) (self_submodules p) =
           [(''cc_datapath'', PHYTXDatapath (self_data_width p) (self_pcie_data_width p) (cd a)),
            (''rq_datapath'', PHYTXDatapath (self_data_width p) (self_pcie_data_width p) (cd a)),
            (''cq_datapath'', PHYRXDatapath (self_data_width p) (self_pcie_data_width p) (cd a)),
            (''rc_datapath'', PHYRXDatapath (self_data_width p) (self_pcie_data_width p) (cd a))]
         \<and> self_data_width p = data_width a
         \<and> self_pcie_data_width p
             = (case pcie_data_width a of None \<Rightarrow> data_width a | Some w \<Rightarrow> w)
         \<and> Connect (Self ''req_sink'') (Of ''rq_datapath'' ''sink'') \<in> set (self_comb p)
         \<and> Connect (Self ''cmp_sink'') (Of ''cc_datapath'' ''sink'') \<in> set (self_comb p)
         \<and> Connect (Of ''cq_datapath'' ''source'') (Self ''req_source'') \<in> set (self_comb p)
         \<and> Connect (Of ''rc_datapath'' ''source'') (Self ''cmp_source'') \<in> set (self_comb p)
         \<and> self_s_axis_rq p = Of ''rq_datapath'' ''source''
         \<and> self_s_axis_cc p = Of ''cc_datapath'' ''source''
         \<and> self_m_axis_cq p = Of ''cq_datapath'' ''sink''
         \<and> self_m_axis_rc p = Of ''rc_datapath'' ''sink''"
  by (simp add: init_Inr_submodules [OF assms] init_Inr_comb [OF assms]
      init_Inr_widths [OF assms] init_Inr_axis [OF assms] msi_cdc_def)

theorem four_datapaths_witness:
  "\<exists>p. USPPCIEPHY_init
          ((default_args \<lparr>tx_p = 8\<rparr>)
             \<lparr>speed := ''gen3'', data_width := 128, pcie_data_width := Some 256\<rparr>) = Inr p
      \<and> filter (\<lambda>m. is_tx_datapath (snd m) \<or> is_rx_datapath (snd m)) (self_submodules p) =
           [(''cc_datapath'', PHYTXDatapath 128 256 ''sys''),
            (''rq_datapath'', PHYTXDatapath 128 256 ''sys''),
            (''cq_datapath'', PHYRXDatapath 128 256 ''sys''),
            (''rc_datapath'', PHYRXDatapath 128 256 ''sys'')]
      \<and> Connect (Self ''req_sink'') (Of ''rq_datapath'' ''sink'') \<in> set (self_comb p)
      \<and> Connect (Of ''rc_datapath'' ''source'') (Self ''cmp_source'') \<in> set (self_comb p)"
proof -
  let ?a = "(default_args \<lparr>tx_p = 8\<rparr>)
              \<lparr>speed := ''gen3'', data_width := 128, pcie_data_width := Some 256\<rparr>"
  have "\<exists>p. USPPCIEPHY_init ?a = Inr p"
    by (simp add: init_Inr_iff default_args_def)
  then obtain p where p: "USPPCIEPHY_init ?a = Inr p" ..
  from four_datapaths [OF p]
  have "filter (\<lambda>m. is_tx_datapath (snd m) \<or> is_rx_datapath (snd m)) (self_submodules p) =
           [(''cc_datapath'', PHYTXDatapath 128 256 ''sys''),
            (''rq_datapath'', PHYTXDatapath 128 256 ''sys''),
            (''cq_datapath'', PHYRXDatapath 128 256 ''sys''),
            (''rc_datapath'', PHYRXDatapath 128 256 ''sys'')]
      \<and> Connect (Self ''req_sink'') (Of ''rq_datapath'' ''sink'') \<in> set (self_comb p)
      \<and> Connect (Of ''rc_datapath'' ''source'') (Self ''cmp_source'') \<in> set (self_comb p)"
    by (simp add: default_args_def)
  with p show ?thesis by blast
qed

text \<open>
  C9. A constructor call that gives no pcie data width behaves as the call that gives the
  application data width for it. When it succeeds, the pcie data width of the module is its
  application data width, and each of the four datapaths is built with that one width on
  both of its sides.
\<close>

theorem pcie_data_width_default:
  "USPPCIEPHY_init (a\<lparr>pcie_data_width := None\<rparr>)
     = USPPCIEPHY_init (a\<lparr>pcie_data_width := Some (data_width a)\<rparr>)
   \<and> (\<forall>p. USPPCIEPHY_init (a\<lparr>pcie_data_width := None\<rparr>) = Inr p \<longrightarrow>
         self_pcie_data_width p = self_data_width p
         \<and> filter (\<lambda>m. is_tx_datapath (snd m) \<or> is_rx_datapath (snd m)) (self_submodules p) =
           [(''cc_datapath'', PHYTXDatapath (data_width a) (data_width a) (cd a)),
            (''rq_datapath'', PHYTXDatapath (data_width a) (data_width a) (cd a)),
            (''cq_datapath'', PHYRXDatapath (data_width a) (data_width a) (cd a)),
            (''rc_datapath'', PHYRXDatapath (data_width a) (data_width a) (cd a))])"
proof (intro conjI allI impI)
  show "USPPCIEPHY_init (a\<lparr>pcie_data_width := None\<rparr>)
          = USPPCIEPHY_init (a\<lparr>pcie_data_width := Some (data_width a)\<rparr>)"
    by (simp add: init_unfold)
next
  fix p
  assume h: "USPPCIEPHY_init (a\<lparr>pcie_data_width := None\<rparr>) = Inr p"
  show "self_pcie_data_width p = self_data_width p"
    by (simp add: init_Inr_widths [OF h])
  show "filter (\<lambda>m. is_tx_datapath (snd m) \<or> is_rx_datapath (snd m)) (self_submodules p) =
           [(''cc_datapath'', PHYTXDatapath (data_width a) (data_width a) (cd a)),
            (''rq_datapath'', PHYTXDatapath (data_width a) (data_width a) (cd a)),
            (''cq_datapath'', PHYRXDatapath (data_width a) (data_width a) (cd a)),
            (''rc_datapath'', PHYRXDatapath (data_width a) (data_width a) (cd a))]"
    by (simp add: init_Inr_submodules [OF h] msi_cdc_def)
qed

theorem pcie_data_width_default_witness:
  "\<exists>p. USPPCIEPHY_init
          ((default_args \<lparr>tx_p = 4\<rparr>)\<lparr>data_width := 256\<rparr>) = Inr p
      \<and> self_pcie_data_width p = 256
      \<and> filter (\<lambda>m. is_tx_datapath (snd m) \<or> is_rx_datapath (snd m)) (self_submodules p) =
           [(''cc_datapath'', PHYTXDatapath 256 256 ''sys''),
            (''rq_datapath'', PHYTXDatapath 256 256 ''sys''),
            (''cq_datapath'', PHYRXDatapath 256 256 ''sys''),
            (''rc_datapath'', PHYRXDatapath 256 256 ''sys'')]"
proof -
  let ?a = "(default_args \<lparr>tx_p = 4\<rparr>)\<lparr>data_width := 256\<rparr>"
  have n: "?a\<lparr>pcie_data_width := None\<rparr> = ?a"
    by (simp add: default_args_def)
  have "\<exists>p. USPPCIEPHY_init ?a = Inr p"
    by (simp add: init_Inr_iff default_args_def)
  then obtain p where p: "USPPCIEPHY_init ?a = Inr p" ..
  from pcie_data_width_default [of ?a] p n
  have "self_pcie_data_width p = self_data_width p
      \<and> filter (\<lambda>m. is_tx_datapath (snd m) \<or> is_rx_datapath (snd m)) (self_submodules p) =
           [(''cc_datapath'', PHYTXDatapath 256 256 ''sys''),
            (''rq_datapath'', PHYTXDatapath 256 256 ''sys''),
            (''cq_datapath'', PHYRXDatapath 256 256 ''sys''),
            (''rc_datapath'', PHYRXDatapath 256 256 ''sys'')]"
    by (simp add: default_args_def)
  moreover have "self_data_width p = 256"
    using init_Inr_widths [OF p] by (simp add: default_args_def)
  ultimately show ?thesis
    using p by auto
qed

text \<open>
  C10. The hard IP's inbound request and inbound completion streams enter the module at
  the sinks of \<open>cq_datapath\<close> and \<open>rc_datapath\<close>. On each of the two, the \<open>first\<close> flag is
  bit 14 of that stream's 22-bit \<open>tuser\<close> output and the \<open>last\<close> flag is that stream's
  \<open>tlast\<close> output.
\<close>

theorem ingress_first_last:
  assumes "USPPCIEPHY_init a = Inr p"
  shows "self_m_axis_cq p = Of ''cq_datapath'' ''sink''
         \<and> self_m_axis_rc p = Of ''rc_datapath'' ''sink''
         \<and> m_axis_cq_first (comb_flags out) = bit (m_axis_cq_tuser out) 14
         \<and> m_axis_cq_last (comb_flags out) = m_axis_cq_tlast out
         \<and> m_axis_rc_first (comb_flags out) = bit (m_axis_rc_tuser out) 14
         \<and> m_axis_rc_last (comb_flags out) = m_axis_rc_tlast out"
  by (simp add: init_Inr_axis [OF assms] comb_flags_def)

theorem ingress_first_last_witness:
  "\<exists>p. USPPCIEPHY_init (default_args \<lparr>tx_p = 16\<rparr>) = Inr p
      \<and> self_m_axis_cq p = Of ''cq_datapath'' ''sink''
      \<and> m_axis_cq_first (comb_flags
          \<lparr> m_axis_cq_tuser = 0x4000, m_axis_cq_tlast = False,
            m_axis_rc_tuser = 0x3FBFFF, m_axis_rc_tlast = True \<rparr>)
      \<and> \<not> m_axis_rc_first (comb_flags
          \<lparr> m_axis_cq_tuser = 0x4000, m_axis_cq_tlast = False,
            m_axis_rc_tuser = 0x3FBFFF, m_axis_rc_tlast = True \<rparr>)
      \<and> m_axis_rc_last (comb_flags
          \<lparr> m_axis_cq_tuser = 0x4000, m_axis_cq_tlast = False,
            m_axis_rc_tuser = 0x3FBFFF, m_axis_rc_tlast = True \<rparr>)"
proof -
  let ?out = "\<lparr> m_axis_cq_tuser = 0x4000, m_axis_cq_tlast = False,
                m_axis_rc_tuser = 0x3FBFFF, m_axis_rc_tlast = True \<rparr>"
  have "\<exists>p. USPPCIEPHY_init (default_args \<lparr>tx_p = 16\<rparr>) = Inr p"
    by (simp add: init_Inr_iff default_args_def)
  then obtain p where p: "USPPCIEPHY_init (default_args \<lparr>tx_p = 16\<rparr>) = Inr p" ..
  from ingress_first_last [OF p, of ?out]
  have "self_m_axis_cq p = Of ''cq_datapath'' ''sink''
      \<and> m_axis_cq_first (comb_flags ?out) \<and> \<not> m_axis_rc_first (comb_flags ?out)
      \<and> m_axis_rc_last (comb_flags ?out)"
    by simp
  with p show ?thesis by blast
qed

end
